theory Spec2Isabelle
  imports Main
begin

section \<open>Shared JavaScript notions\<close>

text \<open>
  A call of the library either returns or throws. A thrown exception does not undo the
  mutations made before it, so both outcomes carry the state reached.
\<close>

datatype js_error = TypeError | ReferenceError

datatype 's outcome = Returned 's | Threw js_error 's

text \<open>
  An argument that is meant to be a callback: JavaScript tests it once for truthiness
  (\<^verbatim>\<open>callback || failedCallback\<close>, \<^verbatim>\<open>!callback\<close>) and once with
  \<^verbatim>\<open>typeof callback === 'function'\<close>. Functions are compared by identity, which the
  model renders as equality of the function's name \<open>'f\<close>. The model has one falsy
  value and one truthy value that is not a function.
\<close>

datatype 'f js_arg = Falsy | TruthyNonFunction | Function 'f

fun truthy :: "'f js_arg \<Rightarrow> bool" where
  "truthy Falsy = False"
| "truthy TruthyNonFunction = True"
| "truthy (Function f) = True"

section \<open>The action server (src/src/actionlib/SimpleActionServer.js)\<close>

subsection \<open>Messages\<close>

text \<open>A ROS time stamp \<^verbatim>\<open>{secs, nsecs}\<close>; the numbers are JavaScript integers.\<close>

record ros_time =
  secs :: int
  nsecs :: int

text \<open>
  \<^verbatim>\<open>actionlib_msgs/GoalID\<close>: the type of \<^verbatim>\<open>goalMessage.goal_id\<close> and of a message on
  the cancel topic. The field \<^verbatim>\<open>id\<close> is written \<open>id'\<close>.
\<close>

record GoalID =
  stamp :: ros_time
  id' :: string

record 'g goal_message =
  goal_id :: GoalID
  goal :: 'g

text \<open>An entry \<^verbatim>\<open>{goal_id, status}\<close> of \<^verbatim>\<open>statusMessage.status_list\<close>.\<close>

record GoalStatus =
  status_goal_id :: GoalID
  status :: nat

text \<open>What the server emits to its own listeners: \<^verbatim>\<open>'goal'\<close> with the goal payload, \<^verbatim>\<open>'cancel'\<close>.\<close>

datatype 'g server_event = GoalEvent 'g | CancelEvent

text \<open>
  A message \<^verbatim>\<open>{status : {goal_id, status}, result}\<close> handed to
  \<^verbatim>\<open>resultPublisher.publish\<close>.
\<close>

record 'r result_message =
  result_status :: GoalStatus
  result_payload :: 'r

subsection \<open>State\<close>

text \<open>
  The mutable fields of a \<^verbatim>\<open>SimpleActionServer\<close>, together with two traces: the events
  it has emitted and the messages it has handed to its result publisher. Listeners of
  the emitted events are application code and are not run by the model.
\<close>

record ('g, 'r) server =
  status_list :: "GoalStatus list"
  currentGoal :: "'g goal_message option"
  nextGoal :: "'g goal_message option"
  emitted :: "'g server_event list"
  resultPublished :: "'r result_message list"

definition SimpleActionServer_new :: "('g, 'r) server" where
  "SimpleActionServer_new =
     \<lparr>status_list = [], currentGoal = None, nextGoal = None, emitted = [],
      resultPublished = []\<rparr>"

definition emit :: "'g server_event \<Rightarrow> ('g, 'r) server \<Rightarrow> ('g, 'r) server" where
  "emit e s = s\<lparr>emitted := emitted s @ [e]\<rparr>"

subsection \<open>The goal listener\<close>

definition goalListener_handler ::
  "'g goal_message \<Rightarrow> ('g, 'r) server \<Rightarrow> ('g, 'r) server" where
  "goalListener_handler goalMessage s =
     (if currentGoal s \<noteq> None then
        emit CancelEvent (s\<lparr>nextGoal := Some goalMessage\<rparr>)
      else
        emit (GoalEvent (goal goalMessage))
          (s\<lparr>status_list := [\<lparr>status_goal_id = goal_id goalMessage, status = 1\<rparr>],
             currentGoal := Some goalMessage\<rparr>))"

subsection \<open>Ordering of time stamps\<close>

definition isEarlier :: "ros_time \<Rightarrow> ros_time \<Rightarrow> bool" where
  "isEarlier t1 t2 =
     (if secs t1 > secs t2 then False
      else if secs t1 < secs t2 then True
      else if nsecs t1 < nsecs t2 then True
      else False)"

subsection \<open>The cancel listener\<close>

text \<open>\<^verbatim>\<open>this.currentGoal && cancelMessage.id === this.currentGoal.goal_id.id\<close> and its like.\<close>

definition id_matches :: "GoalID \<Rightarrow> 'g goal_message option \<Rightarrow> bool" where
  "id_matches cancelMessage g =
     (case g of None \<Rightarrow> False | Some m \<Rightarrow> id' cancelMessage = id' (goal_id m))"

text \<open>\<^verbatim>\<open>this.nextGoal && isEarlier(this.nextGoal.goal_id.stamp, cancelMessage.stamp)\<close>.\<close>

definition stamped_before :: "'g goal_message option \<Rightarrow> GoalID \<Rightarrow> bool" where
  "stamped_before g cancelMessage =
     (case g of None \<Rightarrow> False | Some m \<Rightarrow> isEarlier (stamp (goal_id m)) (stamp cancelMessage))"

text \<open>
  The test that guards the cancel-all branch, as the source writes it: the seconds are
  compared with zero twice, the nanoseconds are not read.
\<close>

definition cancel_all_test :: "GoalID \<Rightarrow> bool" where
  "cancel_all_test cancelMessage =
     (secs (stamp cancelMessage) = 0 \<and> secs (stamp cancelMessage) = 0 \<and> id' cancelMessage = [])"

text \<open>The cancel-all branch: the next goal is dropped, the current one is to be cancelled.\<close>

definition cancel_all :: "('g, 'r) server \<Rightarrow> ('g, 'r) server" where
  "cancel_all s =
     (let s1 = s\<lparr>nextGoal := None\<rparr>
      in if currentGoal s1 \<noteq> None then emit CancelEvent s1 else s1)"

text \<open>The other branch, which treats the id and the stamp independently.\<close>

definition cancel_by_id_and_stamp :: "GoalID \<Rightarrow> ('g, 'r) server \<Rightarrow> ('g, 'r) server" where
  "cancel_by_id_and_stamp cancelMessage s =
     (let s1 = (if id_matches cancelMessage (currentGoal s) then emit CancelEvent s
                else if id_matches cancelMessage (nextGoal s) then s\<lparr>nextGoal := None\<rparr>
                else s);
          s2 = (if stamped_before (nextGoal s1) cancelMessage then s1\<lparr>nextGoal := None\<rparr>
                else s1)
      in if stamped_before (currentGoal s2) cancelMessage then emit CancelEvent s2 else s2)"

definition cancelListener_handler :: "GoalID \<Rightarrow> ('g, 'r) server \<Rightarrow> ('g, 'r) server" where
  "cancelListener_handler cancelMessage s =
     (if cancel_all_test cancelMessage then cancel_all s
      else cancel_by_id_and_stamp cancelMessage s)"

subsection \<open>Terminal operations\<close>

text \<open>
  \<^verbatim>\<open>setSucceeded\<close> reads \<^verbatim>\<open>this.currentGoal.goal_id\<close> first: with no current goal that
  is a TypeError, thrown before anything is published.
\<close>

definition setSucceeded :: "'r \<Rightarrow> ('g, 'r) server \<Rightarrow> ('g, 'r) server outcome" where
  "setSucceeded result2 s =
     (case currentGoal s of
        None \<Rightarrow> Threw TypeError s
      | Some cg \<Rightarrow>
          (let resultMessage =
                 \<lparr>result_status = \<lparr>status_goal_id = goal_id cg, status = 3\<rparr>,
                  result_payload = result2\<rparr>;
               s1 = s\<lparr>resultPublished := resultPublished s @ [resultMessage]\<rparr>;
               s2 = s1\<lparr>status_list := []\<rparr>
           in (case nextGoal s2 of
                 Some ng \<Rightarrow>
                   Returned (emit (GoalEvent (goal ng)) (s2\<lparr>currentGoal := Some ng, nextGoal := None\<rparr>))
               | None \<Rightarrow> Returned (s2\<lparr>currentGoal := None\<rparr>))))"

section \<open>The connection (src/src/core/Ros.js)\<close>

text \<open>
  \<^verbatim>\<open>callOnConnection\<close> builds one of two emitter closures, by the transport library:
  \<^verbatim>\<open>socket.emit('operation', msg)\<close> or \<^verbatim>\<open>socket.send(msg)\<close>. The socket is the external
  transport; the model keeps the list of calls made on it.
\<close>

datatype emitter = OperationEmitter | SendEmitter

datatype socket_call = SocketEmit string string | SocketSend string

fun emitter_call :: "emitter \<Rightarrow> string \<Rightarrow> socket_call" where
  "emitter_call OperationEmitter msg = SocketEmit ''operation'' msg"
| "emitter_call SendEmitter msg = SocketSend msg"

text \<open>
  An inbound object as a listener sees it: the \<^verbatim>\<open>result\<close> flag (\<open>None\<close> when the
  field is undefined) and the \<^verbatim>\<open>values\<close>.
\<close>

record 'v message =
  result :: "bool option"
  values' :: 'v

text \<open>
  The closures registered with \<^verbatim>\<open>once\<close>: the queued send of \<^verbatim>\<open>callOnConnection\<close>, which
  captures the emitter and the serialised message; the response listener of
  \<^verbatim>\<open>Service.callService\<close>, which captures both callbacks; and a listener of the
  application that calls \<^verbatim>\<open>callOnConnection\<close> itself when it runs, with a message whose
  serialisation is the given string.
\<close>

datatype 'f listener =
    QueuedSend emitter string
  | ResponseListener "'f js_arg" "'f js_arg"
  | CallingListener string

text \<open>
  What a callback is called with: \<^verbatim>\<open>message.values\<close> as they are (the failure
  callback), or wrapped as \<^verbatim>\<open>new ServiceResponse(message.values)\<close> (the success callback).
\<close>

datatype 'v argument = Values 'v | ServiceResponse 'v

text \<open>
  The fields of a \<^verbatim>\<open>Ros\<close> object, its one-shot listeners by event key in registration
  order, and three traces: the serialised messages \<^verbatim>\<open>callOnConnection\<close> was called with,
  in call order, the calls made on the socket, and the callbacks invoked. Callbacks are
  application code; the model records the call and does not run them.
\<close>

record ('f, 'v) ros =
  idCounter :: nat
  isConnected :: bool
  transportLibrary :: string
  onceListeners :: "string \<Rightarrow> 'f listener list"
  callLog :: "string list"
  socketCalls :: "socket_call list"
  invoked :: "('f \<times> 'v argument) list"

definition run_emitter :: "emitter \<Rightarrow> string \<Rightarrow> ('f, 'v) ros \<Rightarrow> ('f, 'v) ros" where
  "run_emitter e msg s = s\<lparr>socketCalls := socketCalls s @ [emitter_call e msg]\<rparr>"

text \<open>
  Modelled from the spec: \<^verbatim>\<open>once\<close> of the event registry that \<^verbatim>\<open>Ros\<close> inherits from the
  \<^verbatim>\<open>events\<close> package, which is not under src/. A one-shot listener is appended to the
  listeners of its key.
\<close>

definition ros_once :: "string \<Rightarrow> 'f listener \<Rightarrow> ('f, 'v) ros \<Rightarrow> ('f, 'v) ros" where
  "ros_once key l s = s\<lparr>onceListeners := (onceListeners s)(key := onceListeners s key @ [l])\<rparr>"

text \<open>
  \<^verbatim>\<open>Ros.callOnConnection\<close>. \<^verbatim>\<open>JSON.stringify\<close> is a parameter; the message is serialised
  when the call is made, not when it is sent.
\<close>

definition emitter_for :: "('f, 'v) ros \<Rightarrow> emitter" where
  "emitter_for s = (if transportLibrary s = ''socket.io'' then OperationEmitter else SendEmitter)"

definition callOnConnection :: "('m \<Rightarrow> string) \<Rightarrow> 'm \<Rightarrow> ('f, 'v) ros \<Rightarrow> ('f, 'v) ros" where
  "callOnConnection stringify message s =
     (let messageJson = stringify message;
          emitter = emitter_for s;
          s0 = s\<lparr>callLog := callLog s @ [messageJson]\<rparr>
      in if \<not> isConnected s0 then ros_once ''connection'' (QueuedSend emitter messageJson) s0
         else run_emitter emitter messageJson s0)"

text \<open>
  Running a listener. The body of the response listener is the function passed to
  \<^verbatim>\<open>this.ros.once\<close> in \<^verbatim>\<open>Service.callService\<close>.
\<close>

fun fire :: "'f listener \<Rightarrow> 'v message \<Rightarrow> ('f, 'v) ros \<Rightarrow> ('f, 'v) ros" where
  "fire (QueuedSend e messageJson) event s = run_emitter e messageJson s"
| "fire (ResponseListener callback failedCallback) message s =
     (if result message \<noteq> None \<and> result message = Some False then
        (case failedCallback of
           Function f \<Rightarrow> s\<lparr>invoked := invoked s @ [(f, Values (values' message))]\<rparr>
         | _ \<Rightarrow> s)
      else
        (case callback of
           Function f \<Rightarrow> s\<lparr>invoked := invoked s @ [(f, ServiceResponse (values' message))]\<rparr>
         | _ \<Rightarrow> s))"
| "fire (CallingListener messageJson) event s = callOnConnection (\<lambda>json. json) messageJson s"

text \<open>
  Modelled from the spec: \<^verbatim>\<open>emit\<close> of the same event registry. An emitted key runs the
  listeners registered under it at that moment, once each, in registration order, and
  they are removed by that emission; a listener registered while they run is kept for
  the next emission.
\<close>

definition fire_all :: "'f listener list \<Rightarrow> 'v message \<Rightarrow> ('f, 'v) ros \<Rightarrow> ('f, 'v) ros" where
  "fire_all ls event s = foldl (\<lambda>s' l. fire l event s') s ls"

definition ros_emit :: "string \<Rightarrow> 'v message \<Rightarrow> ('f, 'v) ros \<Rightarrow> ('f, 'v) ros" where
  "ros_emit key event s =
     fire_all (onceListeners s key) event (s\<lparr>onceListeners := (onceListeners s)(key := [])\<rparr>)"

text \<open>
  Modelled from the spec: the transport's open signal, handled in SocketAdapter.js, which
  is not under src/. The connection becomes Connected and the \<^verbatim>\<open>'connection'\<close> event is
  emitted. The state changes first: by the spec no operation reaches the transport while
  the state is not Connected, and the emission is what sends the queued operations.
\<close>

definition onopen :: "'v message \<Rightarrow> ('f, 'v) ros \<Rightarrow> ('f, 'v) ros" where
  "onopen event s = ros_emit ''connection'' event (s\<lparr>isConnected := True\<rparr>)"

text \<open>A \<^verbatim>\<open>Ros\<close> object as its constructor leaves it, with the default transport.\<close>

definition Ros_new :: "('f, 'v) ros" where
  "Ros_new = \<lparr>idCounter = 0, isConnected = False, transportLibrary = ''websocket'',
              onceListeners = (\<lambda>key. []), callLog = [], socketCalls = [], invoked = []\<rparr>"

text \<open>
  What happens to a connection from outside its listeners: the application calls
  \<^verbatim>\<open>callOnConnection\<close> with a message, or the transport opens.
\<close>

datatype ('m, 'v) step = Call 'm | Open "'v message"

fun do_step :: "('m \<Rightarrow> string) \<Rightarrow> ('m, 'v) step \<Rightarrow> ('f, 'v) ros \<Rightarrow> ('f, 'v) ros" where
  "do_step stringify (Call m) s = callOnConnection stringify m s"
| "do_step stringify (Open event) s = onopen event s"

definition run_steps ::
  "('m \<Rightarrow> string) \<Rightarrow> ('m, 'v) step list \<Rightarrow> ('f, 'v) ros \<Rightarrow> ('f, 'v) ros" where
  "run_steps stringify steps s = foldl (\<lambda>s' x. do_step stringify x s') s steps"

text \<open>The messages a list of steps passes to \<^verbatim>\<open>callOnConnection\<close>, in call order.\<close>

fun called_messages :: "('m, 'v) step list \<Rightarrow> 'm list" where
  "called_messages [] = []"
| "called_messages (Call m # steps) = m # called_messages steps"
| "called_messages (Open event # steps) = called_messages steps"

text \<open>The socket calls that the queued sends among some listeners will make, in order.\<close>

fun queued_calls :: "'f listener list \<Rightarrow> socket_call list" where
  "queued_calls [] = []"
| "queued_calls (QueuedSend e messageJson # ls) = emitter_call e messageJson # queued_calls ls"
| "queued_calls (ResponseListener callback failedCallback # ls) = queued_calls ls"
| "queued_calls (CallingListener messageJson # ls) = queued_calls ls"

text \<open>Whether a listener calls \<^verbatim>\<open>callOnConnection\<close> when it runs.\<close>

fun calls_back :: "'f listener \<Rightarrow> bool" where
  "calls_back (QueuedSend e messageJson) = False"
| "calls_back (ResponseListener callback failedCallback) = False"
| "calls_back (CallingListener messageJson) = True"

text \<open>
  A connection is quiet when no listener of \<^verbatim>\<open>'connection'\<close> calls back into
  \<^verbatim>\<open>callOnConnection\<close>, and no queued send is pending while it is connected.
\<close>

definition quiet :: "('f, 'v) ros \<Rightarrow> bool" where
  "quiet s \<longleftrightarrow>
     list_all (\<lambda>l. \<not> calls_back l) (onceListeners s ''connection'') \<and>
     (isConnected s \<longrightarrow> queued_calls (onceListeners s ''connection'') = [])"

text \<open>What the socket has been given, followed by what is still queued for it.\<close>

definition wire_and_queue :: "('f, 'v) ros \<Rightarrow> socket_call list" where
  "wire_and_queue s = socketCalls s @ queued_calls (onceListeners s ''connection'')"

section \<open>The service client (Service.js, in src/unnamed/part_001)\<close>

record service =
  name :: string
  serviceType :: string
  isAdvertised :: bool

text \<open>The operation \<^verbatim>\<open>{op, id, service, type, args}\<close> handed to \<^verbatim>\<open>callOnConnection\<close>.\<close>

record 'a call_operation =
  call_op :: string
  call_id :: string
  call_service :: string
  call_type :: string
  call_args :: 'a

text \<open>The decimal digits of a counter, as string concatenation renders a number.\<close>

fun Number_toString :: "nat \<Rightarrow> string" where
  "Number_toString n =
     (if n < 10 then [''0123456789'' ! n]
      else Number_toString (n div 10) @ [''0123456789'' ! (n mod 10)])"

declare Number_toString.simps [simp del]

definition serviceCallId :: "service \<Rightarrow> nat \<Rightarrow> string" where
  "serviceCallId svc counter = ''call_service:'' @ name svc @ '':'' @ Number_toString counter"

text \<open>
  \<^verbatim>\<open>Service.callService\<close>. The connection \<^verbatim>\<open>this.ros\<close> is \<open>None\<close> when the service was
  built without one; incrementing its counter is then a TypeError.
\<close>

definition callService ::
  "service \<Rightarrow> 'a \<Rightarrow> 'f js_arg \<Rightarrow> 'f js_arg \<Rightarrow> ('a call_operation \<Rightarrow> string) \<Rightarrow>
   ('f, 'v) ros option \<Rightarrow> ('f, 'v) ros option outcome" where
  "callService svc request callback failedCallback stringify r =
     (if isAdvertised svc then Returned r
      else
        (case r of
           None \<Rightarrow> Threw TypeError None
         | Some s \<Rightarrow>
             (let s1 = s\<lparr>idCounter := idCounter s + 1\<rparr>;
                  callId = serviceCallId svc (idCounter s1);
                  s2 = (if truthy callback \<or> truthy failedCallback
                        then ros_once callId (ResponseListener callback failedCallback) s1
                        else s1);
                  call = \<lparr>call_op = ''call_service'', call_id = callId,
                          call_service = name svc, call_type = serviceType svc,
                          call_args = request\<rparr>
              in Returned (Some (callOnConnection stringify call s2)))))"

section \<open>The transform client (TFClient.js, in src/src/math/Vector3.js)\<close>

subsection \<open>Frame entries\<close>

text \<open>
  An entry of \<^verbatim>\<open>frameInfos\<close>: the last transform received for the frame, if any, and the
  subscribed callbacks in subscription order.
\<close>

record ('f, 't) frame_info =
  transform :: "'t option"
  cbs :: "'f js_arg list"

text \<open>
  \<^verbatim>\<open>frameInfos\<close> is a plain JavaScript object used as a dictionary from frame ids to
  entries. Its own properties are kept as an association list in creation order; what
  it inherits from \<^verbatim>\<open>Object.prototype\<close> is described with the state below.
\<close>

type_synonym ('f, 't) frame_infos = "(string \<times> ('f, 't) frame_info) list"

definition update_info ::
  "string \<Rightarrow> (('f, 't) frame_info \<Rightarrow> ('f, 't) frame_info) \<Rightarrow> ('f, 't) frame_infos \<Rightarrow>
   ('f, 't) frame_infos" where
  "update_info frameID f infos =
     map (\<lambda>(k, info). if k = frameID then (k, f info) else (k, info)) infos"

definition delete_info :: "string \<Rightarrow> ('f, 't) frame_infos \<Rightarrow> ('f, 't) frame_infos" where
  "delete_info frameID infos = filter (\<lambda>(k, info). k \<noteq> frameID) infos"

text \<open>
  \<^verbatim>\<open>Object.keys\<close>: the keys that are array indices (canonical decimal numerals below
  \<open>2\<^sup>3\<^sup>2 - 1\<close>) in ascending numeric order, then the other keys in creation order.
\<close>

definition decimal_value :: "string \<Rightarrow> nat" where
  "decimal_value k = foldl (\<lambda>a c. 10 * a + (of_char c - 48)) 0 k"

definition is_array_index :: "string \<Rightarrow> bool" where
  "is_array_index k =
     (k \<noteq> [] \<and> list_all (\<lambda>c. c \<in> set ''0123456789'') k
      \<and> (length k = 1 \<or> hd k \<noteq> CHR ''0'') \<and> decimal_value k < 4294967295)"

definition Object_keys :: "(string \<times> 'a) list \<Rightarrow> string list" where
  "Object_keys ps =
     (let ks = map fst ps
      in sort_key decimal_value (filter is_array_index ks) @
         filter (\<lambda>k. \<not> is_array_index k) ks)"

text \<open>\<^verbatim>\<open>if (frameID[0] === '/') frameID = frameID.substring(1)\<close>: one leading slash goes.\<close>

definition strip_leading_slash :: "string \<Rightarrow> string" where
  "strip_leading_slash frameID =
     (case frameID of
        [] \<Rightarrow> frameID
      | c # rest \<Rightarrow> if c = CHR ''/'' then rest else frameID)"

subsection \<open>State\<close>

text \<open>
  The message built by \<^verbatim>\<open>updateGoal\<close>; \<^verbatim>\<open>timeout\<close> is set in the service mode only. The
  thresholds and the rate are numbers the model does not compute with.
\<close>

record 'n republish_request =
  source_frames :: "string list"
  target_frame :: string
  angular_thres :: 'n
  trans_thres :: 'n
  rate :: 'n
  timeout :: "ros_time option"

text \<open>
  What the client asks of its collaborators: cancelling the goal it holds, sending a new
  goal through the action client, or calling the republish service.
\<close>

datatype 'n upstream_call =
    GoalCancel "'n republish_request"
  | GoalSend "'n republish_request"
  | ServiceCall "'n republish_request"


text \<open>
  The fields of a \<^verbatim>\<open>TFClient\<close> (\<open>tf_currentGoal\<close> is its \<^verbatim>\<open>currentGoal\<close>, as the message of
  the goal it holds; \<open>groovyCompatibility\<close> is read from its connection), the delays of
  the \<^verbatim>\<open>setTimeout(updateGoal)\<close> timers that have not fired yet, oldest first, and two
  traces: the upstream calls made and the subscriber callbacks invoked.

  The last three fields are the part of the shared built-in objects that the client can
  write to, because it reads \<^verbatim>\<open>frameInfos\<close> without asking whether a property is its
  own: the \<^verbatim>\<open>transform\<close> property of the built-in functions that \<^verbatim>\<open>frameInfos\<close> inherits,
  by the function's property name; \<^verbatim>\<open>Object.prototype.transform\<close>; and the \<^verbatim>\<open>transform\<close>
  property of the object held there.
\<close>

record ('f, 't, 'n) tfclient =
  groovyCompatibility :: bool
  fixedFrame :: string
  angularThres :: 'n
  transThres :: 'n
  tf_rate :: 'n
  updateDelay :: nat
  topicTimeout :: ros_time
  tf_currentGoal :: "'n republish_request option"
  frameInfos :: "('f, 't) frame_infos"
  republisherUpdateRequested :: bool
  timeouts :: "nat list"
  upstream :: "'n upstream_call list"
  called :: "('f \<times> 't) list"
  functionTransform :: "string \<Rightarrow> 't option"
  prototypeTransform :: "'t option"
  prototypeTransformOwn :: "'t option"

text \<open>
  A client as its constructor leaves it, where nothing has written to the built-in
  objects before. The arguments are the option values after the constructor's defaults
  have been applied.
\<close>

definition TFClient_new ::
  "bool \<Rightarrow> string \<Rightarrow> 'n \<Rightarrow> 'n \<Rightarrow> 'n \<Rightarrow> nat \<Rightarrow> ros_time \<Rightarrow> ('f, 't, 'n) tfclient" where
  "TFClient_new groovy frame angular translational r delay topic =
     \<lparr>groovyCompatibility = groovy, fixedFrame = frame, angularThres = angular,
      transThres = translational, tf_rate = r, updateDelay = delay, topicTimeout = topic,
      tf_currentGoal = None, frameInfos = [], republisherUpdateRequested = False,
      timeouts = [], upstream = [], called = [],
      functionTransform = (\<lambda>k. None), prototypeTransform = None,
      prototypeTransformOwn = None\<rparr>"

definition upstream_do ::
  "'n upstream_call \<Rightarrow> ('f, 't, 'n) tfclient \<Rightarrow> ('f, 't, 'n) tfclient" where
  "upstream_do c s = s\<lparr>upstream := upstream s @ [c]\<rparr>"

subsection \<open>Reading \<^verbatim>\<open>frameInfos\<close>\<close>

text \<open>
  The function-valued properties of \<^verbatim>\<open>Object.prototype\<close>. Its remaining standard property
  is the accessor \<^verbatim>\<open>__proto__\<close>, which yields \<^verbatim>\<open>Object.prototype\<close> itself.
\<close>

definition Object_prototype_functions :: "string list" where
  "Object_prototype_functions =
     [''constructor'', ''__defineGetter__'', ''__defineSetter__'', ''hasOwnProperty'',
      ''__lookupGetter__'', ''__lookupSetter__'', ''isPrototypeOf'', ''propertyIsEnumerable'',
      ''toString'', ''valueOf'', ''toLocaleString'']"

text \<open>
  The value of \<^verbatim>\<open>this.frameInfos[frameID]\<close>: undefined, an entry of its own, or, when it has
  no such property of its own, what it inherits: a built-in function,
  \<^verbatim>\<open>Object.prototype\<close> itself under \<^verbatim>\<open>__proto__\<close>, or the object that an earlier write
  has left in \<^verbatim>\<open>Object.prototype.transform\<close>. All but the first are truthy.
\<close>

datatype ('f, 't) property =
    Undefined
  | OwnEntry "('f, 't) frame_info"
  | InheritedFunction string
  | ThePrototype
  | InheritedTransform

definition frameInfos_get :: "('f, 't, 'n) tfclient \<Rightarrow> string \<Rightarrow> ('f, 't) property" where
  "frameInfos_get s frameID =
     (case map_of (frameInfos s) frameID of
        Some info \<Rightarrow> OwnEntry info
      | None \<Rightarrow>
          if frameID = ''__proto__'' then ThePrototype
          else if frameID \<in> set Object_prototype_functions then InheritedFunction frameID
          else if frameID = ''transform'' \<and> prototypeTransform s \<noteq> None then InheritedTransform
          else Undefined)"

text \<open>Whether \<^verbatim>\<open>frameInfos\<close> inherits a property of that name.\<close>

definition inherits :: "('f, 't, 'n) tfclient \<Rightarrow> string \<Rightarrow> bool" where
  "inherits s frameID =
     (frameID = ''__proto__'' \<or> frameID \<in> set Object_prototype_functions
      \<or> (frameID = ''transform'' \<and> prototypeTransform s \<noteq> None))"

text \<open>
  Reading \<^verbatim>\<open>.transform\<close> of such a value: the property of its own if it has one, else the
  one every object inherits from \<^verbatim>\<open>Object.prototype\<close>.
\<close>

definition or_inherited :: "'t option \<Rightarrow> ('f, 't, 'n) tfclient \<Rightarrow> 't option" where
  "or_inherited own s = (case own of Some t \<Rightarrow> Some t | None \<Rightarrow> prototypeTransform s)"

fun get_transform :: "('f, 't) property \<Rightarrow> ('f, 't, 'n) tfclient \<Rightarrow> 't option" where
  "get_transform Undefined s = None"
| "get_transform (OwnEntry info) s = or_inherited (transform info) s"
| "get_transform (InheritedFunction k) s = or_inherited (functionTransform s k) s"
| "get_transform ThePrototype s = prototypeTransform s"
| "get_transform InheritedTransform s = or_inherited (prototypeTransformOwn s) s"

text \<open>
  Writing \<^verbatim>\<open>.transform\<close> of the value found under \<^verbatim>\<open>frameID\<close>. A new object in
  \<^verbatim>\<open>Object.prototype.transform\<close> has no \<^verbatim>\<open>transform\<close> of its own.
\<close>

fun set_transform ::
  "string \<Rightarrow> ('f, 't) property \<Rightarrow> 't \<Rightarrow> ('f, 't, 'n) tfclient \<Rightarrow> ('f, 't, 'n) tfclient" where
  "set_transform frameID Undefined t s = s"
| "set_transform frameID (OwnEntry info) t s =
     s\<lparr>frameInfos := update_info frameID (\<lambda>i. i\<lparr>transform := Some t\<rparr>) (frameInfos s)\<rparr>"
| "set_transform frameID (InheritedFunction k) t s =
     s\<lparr>functionTransform := (functionTransform s)(k := Some t)\<rparr>"
| "set_transform frameID ThePrototype t s =
     s\<lparr>prototypeTransform := Some t, prototypeTransformOwn := None\<rparr>"
| "set_transform frameID InheritedTransform t s = s\<lparr>prototypeTransformOwn := Some t\<rparr>"

subsection \<open>Re-aggregation\<close>

definition updateGoal :: "('f, 't, 'n) tfclient \<Rightarrow> ('f, 't, 'n) tfclient" where
  "updateGoal s =
     (let goalMessage =
            \<lparr>source_frames = Object_keys (frameInfos s), target_frame = fixedFrame s,
             angular_thres = angularThres s, trans_thres = transThres s, rate = tf_rate s,
             timeout = None\<rparr>;
          s1 = (if groovyCompatibility s then
                  (let s' = (case tf_currentGoal s of
                               Some g \<Rightarrow> upstream_do (GoalCancel g) s
                             | None \<Rightarrow> s)
                   in upstream_do (GoalSend goalMessage) (s'\<lparr>tf_currentGoal := Some goalMessage\<rparr>))
                else
                  upstream_do (ServiceCall (goalMessage\<lparr>timeout := Some (topicTimeout s)\<rparr>)) s)
      in s1\<lparr>republisherUpdateRequested := False\<rparr>)"


subsection \<open>Subscribing and unsubscribing\<close>

definition push_cb ::
  "string \<Rightarrow> 'f js_arg \<Rightarrow> ('f, 't, 'n) tfclient \<Rightarrow> ('f, 't, 'n) tfclient" where
  "push_cb frameID callback s =
     s\<lparr>frameInfos :=
         update_info frameID (\<lambda>info. info\<lparr>cbs := cbs info @ [callback]\<rparr>) (frameInfos s)\<rparr>"

text \<open>
  \<^verbatim>\<open>this.frameInfos[frameID].cbs.push(callback)\<close>: only an entry has \<^verbatim>\<open>cbs\<close>; on an
  inherited value \<^verbatim>\<open>.cbs\<close> is undefined and the call is a TypeError.
\<close>

fun push_callback ::
  "string \<Rightarrow> ('f, 't) property \<Rightarrow> 'f js_arg \<Rightarrow> ('f, 't, 'n) tfclient \<Rightarrow>
   ('f, 't, 'n) tfclient outcome" where
  "push_callback frameID (OwnEntry info) callback s = Returned (push_cb frameID callback s)"
| "push_callback frameID found callback s = Threw TypeError s"

text \<open>
  \<^verbatim>\<open>TFClient.subscribe\<close>. The frame counts as unwatched when \<^verbatim>\<open>this.frameInfos[frameID]\<close>
  is falsy, which an inherited value is not. Calling a callback that is not a function
  is a TypeError; it can only happen on the branch that calls back at once.
\<close>

definition subscribe ::
  "string \<Rightarrow> 'f js_arg \<Rightarrow> ('f, 't, 'n) tfclient \<Rightarrow> ('f, 't, 'n) tfclient outcome" where
  "subscribe frameID0 callback s =
     (let frameID = strip_leading_slash frameID0
      in case frameInfos_get s frameID of
           Undefined \<Rightarrow>
             (let s1 = s\<lparr>frameInfos := frameInfos s @ [(frameID, \<lparr>transform = None, cbs = []\<rparr>)]\<rparr>;
                  s2 = (if \<not> republisherUpdateRequested s1
                        then s1\<lparr>timeouts := timeouts s1 @ [updateDelay s1],
                                republisherUpdateRequested := True\<rparr>
                        else s1)
              in Returned (push_cb frameID callback s2))
         | found \<Rightarrow>
             (case get_transform found s of
                Some t \<Rightarrow>
                  (case callback of
                     Function f \<Rightarrow>
                       push_callback frameID found callback (s\<lparr>called := called s @ [(f, t)]\<rparr>)
                   | _ \<Rightarrow> Threw TypeError s)
              | None \<Rightarrow> push_callback frameID found callback s))"

text \<open>
  The loop of \<^verbatim>\<open>unsubscribe\<close>:
  \<^verbatim>\<open>for (let cbs = ..., idx = cbs.length; idx--;) { if (cbs[idx] === callback) cbs.splice(idx, 1) }\<close>.
  The test \<^verbatim>\<open>idx--\<close> reads the index and then decrements it, so the body sees the
  predecessor.
\<close>

fun splice_matching :: "nat \<Rightarrow> 'a \<Rightarrow> 'a list \<Rightarrow> 'a list" where
  "splice_matching 0 callback cbs' = cbs'"
| "splice_matching (Suc idx) callback cbs' =
     splice_matching idx callback
       (if cbs' ! idx = callback then take idx cbs' @ drop (Suc idx) cbs' else cbs')"

text \<open>
  \<^verbatim>\<open>TFClient.unsubscribe\<close>. The array \<^verbatim>\<open>cbs\<close> is declared with \<^verbatim>\<open>let\<close> in the head of the
  \<^verbatim>\<open>for\<close> loop, so its scope ends with the loop. The condition after the loop,
  \<^verbatim>\<open>!callback || cbs.length === 0\<close>, reads \<^verbatim>\<open>cbs\<close> whenever \<^verbatim>\<open>callback\<close> is truthy; no
  binding of that name is in scope there, which is a ReferenceError, thrown after the
  loop has spliced the array and before the entry is deleted. An inherited value has no
  \<^verbatim>\<open>cbs\<close>, so the loop then runs over a fresh empty array, and \<^verbatim>\<open>delete\<close> removes own
  properties only.
\<close>

definition unsubscribe ::
  "string \<Rightarrow> 'f js_arg \<Rightarrow> ('f, 't, 'n) tfclient \<Rightarrow> ('f, 't, 'n) tfclient outcome" where
  "unsubscribe frameID0 callback s =
     (let frameID = strip_leading_slash frameID0;
          s1 = (case frameInfos_get s frameID of
                  OwnEntry info \<Rightarrow>
                    s\<lparr>frameInfos :=
                        update_info frameID
                          (\<lambda>i. i\<lparr>cbs := splice_matching (length (cbs i)) callback (cbs i)\<rparr>)
                          (frameInfos s)\<rparr>
                | _ \<Rightarrow> s)
      in if \<not> truthy callback then Returned (s1\<lparr>frameInfos := delete_info frameID (frameInfos s1)\<rparr>)
         else Threw ReferenceError s1)"

subsection \<open>Incoming transforms\<close>

text \<open>An element of \<^verbatim>\<open>tf.transforms\<close>: the child frame and the transform built from it.\<close>

record 't stamped_transform =
  child_frame_id :: string
  transform_of :: 't

text \<open>\<^verbatim>\<open>info.cbs.forEach((cb) => { cb(info.transform) })\<close>.\<close>

fun call_cbs ::
  "'f js_arg list \<Rightarrow> 't \<Rightarrow> ('f, 't, 'n) tfclient \<Rightarrow> ('f, 't, 'n) tfclient outcome" where
  "call_cbs [] t s = Returned s"
| "call_cbs (cb # rest) t s =
     (case cb of
        Function f \<Rightarrow> call_cbs rest t (s\<lparr>called := called s @ [(f, t)]\<rparr>)
      | _ \<Rightarrow> Threw TypeError s)"

text \<open>
  \<^verbatim>\<open>TFClient.processTFArray\<close>. For every truthy value found the transform is written
  first; then \<^verbatim>\<open>info.cbs.forEach\<close> calls the callbacks of an entry, and is a TypeError
  on an inherited value, which has no \<^verbatim>\<open>cbs\<close>.
\<close>

fun processTFArray ::
  "'t stamped_transform list \<Rightarrow> ('f, 't, 'n) tfclient \<Rightarrow> ('f, 't, 'n) tfclient outcome" where
  "processTFArray [] s = Returned s"
| "processTFArray (tr # rest) s =
     (let frameID = strip_leading_slash (child_frame_id tr)
      in case frameInfos_get s frameID of
           Undefined \<Rightarrow> processTFArray rest s
         | OwnEntry info \<Rightarrow>
             (case call_cbs (cbs info) (transform_of tr)
                     (set_transform frameID (OwnEntry info) (transform_of tr) s) of
                Returned s2 \<Rightarrow> processTFArray rest s2
              | Threw e s2 \<Rightarrow> Threw e s2)
         | found \<Rightarrow> Threw TypeError (set_transform frameID found (transform_of tr) s))"

text \<open>The state an outcome carries, and whether the call returned.\<close>

fun state_of :: "'s outcome \<Rightarrow> 's" where
  "state_of (Returned s) = s"
| "state_of (Threw e s) = s"

fun returned :: "'s outcome \<Rightarrow> bool" where
  "returned (Returned s) = True"
| "returned (Threw e s) = False"

section \<open>Properties of the action server\<close>

lemma isEarlier_lex:
  "isEarlier a b \<longleftrightarrow> secs a < secs b \<or> (secs a = secs b \<and> nsecs a < nsecs b)"
  by (auto simp: isEarlier_def)

lemma lex_numeric:
  fixes s1 n1 s2 n2 :: int
  assumes "0 \<le> n1" "n1 < 1000000000" "0 \<le> n2" "n2 < 1000000000"
  shows "(s1 < s2 \<or> (s1 = s2 \<and> n1 < n2)) \<longleftrightarrow>
         s1 * 1000000000 + n1 < s2 * 1000000000 + n2"
proof (cases "s1 < s2")
  case True
  then have "s1 + 1 \<le> s2" by simp
  then have "(s1 + 1) * 1000000000 \<le> s2 * 1000000000" by (rule mult_right_mono) simp
  with assms True show ?thesis by (simp add: algebra_simps)
next
  case False
  show ?thesis
  proof (cases "s1 = s2")
    case True
    then show ?thesis by simp
  next
    case ne: False
    with False have "s2 + 1 \<le> s1" by simp
    then have "(s2 + 1) * 1000000000 \<le> s1 * 1000000000" by (rule mult_right_mono) simp
    with assms False ne show ?thesis by (simp add: algebra_simps)
  qed
qed

text \<open>
  Claim C6. On time stamps with non-negative seconds and nanoseconds below \<open>10\<^sup>9\<close>,
  \<open>isEarlier\<close> is the numeric order of \<open>secs \<sqdot> 10\<^sup>9 + nsecs\<close>, and it is a strict
  total order: irreflexive, transitive, and any two distinct stamps are comparable.
\<close>

theorem isEarlier_strict_total_order:
  fixes a b c :: ros_time
  assumes "0 \<le> secs a \<and> 0 \<le> nsecs a \<and> nsecs a < 1000000000"
    and "0 \<le> secs b \<and> 0 \<le> nsecs b \<and> nsecs b < 1000000000"
    and "0 \<le> secs c \<and> 0 \<le> nsecs c \<and> nsecs c < 1000000000"
  shows "(isEarlier a b \<longleftrightarrow>
            secs a * 1000000000 + nsecs a < secs b * 1000000000 + nsecs b)
       \<and> \<not> isEarlier a a
       \<and> (isEarlier a b \<and> isEarlier b c \<longrightarrow> isEarlier a c)
       \<and> (a = b \<or> isEarlier a b \<or> isEarlier b a)"
proof -
  have num: "isEarlier a b \<longleftrightarrow>
      secs a * 1000000000 + nsecs a < secs b * 1000000000 + nsecs b"
    using assms lex_numeric [of "nsecs a" "nsecs b" "secs a" "secs b"]
    by (simp add: isEarlier_lex)
  have irrefl: "\<not> isEarlier a a" by (simp add: isEarlier_lex)
  have trans: "isEarlier a b \<and> isEarlier b c \<longrightarrow> isEarlier a c"
    by (auto simp: isEarlier_lex)
  have total: "a = b \<or> isEarlier a b \<or> isEarlier b a"
    by (cases a, cases b) (auto simp: isEarlier_lex)
  from num irrefl trans total show ?thesis by blast
qed

theorem isEarlier_strict_total_order_witness:
  "(isEarlier \<lparr>secs = 1, nsecs = 999999999\<rparr> \<lparr>secs = 2, nsecs = 0\<rparr> \<longleftrightarrow>
      (1::int) * 1000000000 + 999999999 < 2 * 1000000000 + 0)
   \<and> isEarlier \<lparr>secs = 1, nsecs = 999999999\<rparr> \<lparr>secs = 2, nsecs = 0\<rparr>
   \<and> isEarlier \<lparr>secs = 2, nsecs = 0\<rparr> \<lparr>secs = 2, nsecs = 7\<rparr>
   \<and> isEarlier \<lparr>secs = 1, nsecs = 999999999\<rparr> \<lparr>secs = 2, nsecs = 7\<rparr>
   \<and> \<not> isEarlier \<lparr>secs = 2, nsecs = 0\<rparr> \<lparr>secs = 1, nsecs = 999999999\<rparr>"
  using isEarlier_strict_total_order
    [of "\<lparr>secs = 1, nsecs = 999999999\<rparr>" "\<lparr>secs = 2, nsecs = 0\<rparr>" "\<lparr>secs = 2, nsecs = 7\<rparr>"]
  by (simp add: isEarlier_def)

text \<open>
  Claim C9. A cancel message that names the current goal and is stamped strictly later
  than it, and that does not take the cancel-all branch, makes the server emit
  \<^verbatim>\<open>'cancel'\<close> twice: once for the matching id, once more for the stamp.
\<close>

theorem cancel_emitted_twice:
  assumes "currentGoal s = Some g"
    and "id' m = id' (goal_id g)"
    and "isEarlier (stamp (goal_id g)) (stamp m)"
    and "\<not> cancel_all_test m"
  shows "emitted (cancelListener_handler m s) = emitted s @ [CancelEvent, CancelEvent]"
  using assms
  by (simp add: cancelListener_handler_def cancel_by_id_and_stamp_def id_matches_def
      stamped_before_def emit_def Let_def)

theorem cancel_emitted_twice_witness:
  "emitted (cancelListener_handler \<lparr>stamp = \<lparr>secs = 5, nsecs = 0\<rparr>, id' = ''a''\<rparr>
      ((SimpleActionServer_new :: (nat, nat) server)
         \<lparr>currentGoal := Some \<lparr>goal_id = \<lparr>stamp = \<lparr>secs = 4, nsecs = 0\<rparr>, id' = ''a''\<rparr>,
                                 goal = 0\<rparr>\<rparr>))
   = [CancelEvent, CancelEvent]"
  using cancel_emitted_twice
    [of "(SimpleActionServer_new :: (nat, nat) server)
           \<lparr>currentGoal := Some \<lparr>goal_id = \<lparr>stamp = \<lparr>secs = 4, nsecs = 0\<rparr>, id' = ''a''\<rparr>,
                                   goal = 0\<rparr>\<rparr>"
        "\<lparr>goal_id = \<lparr>stamp = \<lparr>secs = 4, nsecs = 0\<rparr>, id' = ''a''\<rparr>, goal = 0\<rparr>"
        "\<lparr>stamp = \<lparr>secs = 5, nsecs = 0\<rparr>, id' = ''a''\<rparr>"]
  by (simp add: SimpleActionServer_new_def isEarlier_def cancel_all_test_def)

text \<open>
  Claim C1. Goal \<open>A\<close> is accepted by a fresh server, goal \<open>B\<close> arrives while \<open>A\<close> is
  current, then \<^verbatim>\<open>setSucceeded\<close> is called. The call returns; it publishes \<open>A\<close>'s
  status and result, emits one \<^verbatim>\<open>'goal'\<close> event for \<open>B\<close>, makes \<open>B\<close> the current goal
  and clears the next goal. The status list, however, is left empty: the promotion
  does not enter \<open>B\<close> into it, unlike the goal listener's admission of a first goal.
\<close>

theorem preemption_setSucceeded:
  "goalListener_handler B (goalListener_handler A SimpleActionServer_new) =
     \<lparr>status_list = [\<lparr>status_goal_id = goal_id A, status = 1\<rparr>],
      currentGoal = Some A, nextGoal = Some B,
      emitted = [GoalEvent (goal A), CancelEvent], resultPublished = []\<rparr>
   \<and> setSucceeded r (goalListener_handler B (goalListener_handler A SimpleActionServer_new)) =
     Returned
       \<lparr>status_list = [],
        currentGoal = Some B, nextGoal = None,
        emitted = [GoalEvent (goal A), CancelEvent, GoalEvent (goal B)],
        resultPublished =
          [\<lparr>result_status = \<lparr>status_goal_id = goal_id A, status = 3\<rparr>, result_payload = r\<rparr>]\<rparr>"
  by (simp add: goalListener_handler_def SimpleActionServer_new_def setSucceeded_def emit_def)

text \<open>
  Claim C2. A cancel message with the empty id and the stamp \<open>{secs = 0, nsecs = 5}\<close>
  arrives while goal \<open>a\<close> is current and goal \<open>b\<close> is next. Its stamp is not zero, and
  resolved by id and stamp it would change nothing: it names neither goal and is stamped
  after neither. The guard of the cancel-all branch accepts it all the same, since it
  reads the seconds twice and the nanoseconds never: the next goal is dropped and
  \<^verbatim>\<open>'cancel'\<close> is emitted.
\<close>

theorem cancel_all_ignores_nsecs:
  "nsecs (stamp \<lparr>stamp = \<lparr>secs = 0, nsecs = 5\<rparr>, id' = ''''\<rparr>) \<noteq> 0
   \<and> cancel_all_test \<lparr>stamp = \<lparr>secs = 0, nsecs = 5\<rparr>, id' = ''''\<rparr>
   \<and> cancel_by_id_and_stamp \<lparr>stamp = \<lparr>secs = 0, nsecs = 5\<rparr>, id' = ''''\<rparr>
       \<lparr>status_list = [\<lparr>status_goal_id = \<lparr>stamp = \<lparr>secs = 10, nsecs = 0\<rparr>, id' = ''a''\<rparr>,
                         status = 1\<rparr>],
        currentGoal = Some \<lparr>goal_id = \<lparr>stamp = \<lparr>secs = 10, nsecs = 0\<rparr>, id' = ''a''\<rparr>,
                             goal = (0::nat)\<rparr>,
        nextGoal = Some \<lparr>goal_id = \<lparr>stamp = \<lparr>secs = 20, nsecs = 0\<rparr>, id' = ''b''\<rparr>,
                          goal = 1\<rparr>,
        emitted = [], resultPublished = ([] :: nat result_message list)\<rparr>
     = \<lparr>status_list = [\<lparr>status_goal_id = \<lparr>stamp = \<lparr>secs = 10, nsecs = 0\<rparr>, id' = ''a''\<rparr>,
                         status = 1\<rparr>],
        currentGoal = Some \<lparr>goal_id = \<lparr>stamp = \<lparr>secs = 10, nsecs = 0\<rparr>, id' = ''a''\<rparr>,
                             goal = 0\<rparr>,
        nextGoal = Some \<lparr>goal_id = \<lparr>stamp = \<lparr>secs = 20, nsecs = 0\<rparr>, id' = ''b''\<rparr>,
                          goal = 1\<rparr>,
        emitted = [], resultPublished = []\<rparr>
   \<and> cancelListener_handler \<lparr>stamp = \<lparr>secs = 0, nsecs = 5\<rparr>, id' = ''''\<rparr>
       \<lparr>status_list = [\<lparr>status_goal_id = \<lparr>stamp = \<lparr>secs = 10, nsecs = 0\<rparr>, id' = ''a''\<rparr>,
                         status = 1\<rparr>],
        currentGoal = Some \<lparr>goal_id = \<lparr>stamp = \<lparr>secs = 10, nsecs = 0\<rparr>, id' = ''a''\<rparr>,
                             goal = (0::nat)\<rparr>,
        nextGoal = Some \<lparr>goal_id = \<lparr>stamp = \<lparr>secs = 20, nsecs = 0\<rparr>, id' = ''b''\<rparr>,
                          goal = 1\<rparr>,
        emitted = [], resultPublished = ([] :: nat result_message list)\<rparr>
     = \<lparr>status_list = [\<lparr>status_goal_id = \<lparr>stamp = \<lparr>secs = 10, nsecs = 0\<rparr>, id' = ''a''\<rparr>,
                         status = 1\<rparr>],
        currentGoal = Some \<lparr>goal_id = \<lparr>stamp = \<lparr>secs = 10, nsecs = 0\<rparr>, id' = ''a''\<rparr>,
                             goal = 0\<rparr>,
        nextGoal = None,
        emitted = [CancelEvent], resultPublished = []\<rparr>"
  by (simp add: cancelListener_handler_def cancel_all_test_def cancel_all_def
      cancel_by_id_and_stamp_def id_matches_def stamped_before_def isEarlier_def emit_def)

section \<open>Properties of the connection and the service client\<close>

lemma serviceCallId_not_connection [simp]: "serviceCallId svc n \<noteq> ''connection''"
  by (simp add: serviceCallId_def)

lemma emitter_for_transport:
  "transportLibrary s' = transportLibrary s \<Longrightarrow> emitter_for s' = emitter_for s"
  by (simp add: emitter_for_def)

lemma callOnConnection_fields [simp]:
  "invoked (callOnConnection stringify call s) = invoked s"
  "idCounter (callOnConnection stringify call s) = idCounter s"
  "isConnected (callOnConnection stringify call s) = isConnected s"
  "transportLibrary (callOnConnection stringify call s) = transportLibrary s"
  "callLog (callOnConnection stringify call s) = callLog s @ [stringify call]"
  "key \<noteq> ''connection'' \<Longrightarrow> onceListeners (callOnConnection stringify call s) key = onceListeners s key"
  by (simp_all add: callOnConnection_def ros_once_def run_emitter_def Let_def)

lemma callOnConnection_queues:
  "\<not> isConnected s \<Longrightarrow>
   socketCalls (callOnConnection stringify m s) = socketCalls s \<and>
   onceListeners (callOnConnection stringify m s) ''connection'' =
     onceListeners s ''connection'' @ [QueuedSend (emitter_for s) (stringify m)]"
  by (simp add: callOnConnection_def ros_once_def Let_def emitter_for_def)

lemma callOnConnection_sends:
  "isConnected s \<Longrightarrow>
   socketCalls (callOnConnection stringify m s) =
     socketCalls s @ [emitter_call (emitter_for s) (stringify m)] \<and>
   onceListeners (callOnConnection stringify m s) = onceListeners s"
  by (simp add: callOnConnection_def run_emitter_def Let_def emitter_for_def)

lemma fire_keeps:
  "key \<noteq> ''connection'' \<Longrightarrow> onceListeners (fire l ev s) key = onceListeners s key"
  by (cases l) (simp_all add: run_emitter_def split: js_arg.splits)

lemma fire_all_keeps:
  "key \<noteq> ''connection'' \<Longrightarrow> onceListeners (fire_all ls ev s) key = onceListeners s key"
  unfolding fire_all_def by (induction ls arbitrary: s) (simp_all add: fire_keeps)

lemma ros_emit_single:
  "onceListeners s key = [l] \<Longrightarrow>
   ros_emit key m s = fire l m (s\<lparr>onceListeners := (onceListeners s)(key := [])\<rparr>)"
  by (simp add: ros_emit_def fire_all_def)

lemma ros_emit_none:
  "onceListeners s key = [] \<Longrightarrow> invoked (ros_emit key m s) = invoked s"
  by (simp add: ros_emit_def fire_all_def)

lemma ros_emit_other:
  "key \<noteq> k \<Longrightarrow> k \<noteq> ''connection'' \<Longrightarrow>
   onceListeners (ros_emit key m s) k = onceListeners s k"
  by (simp add: ros_emit_def fire_all_keeps)

lemma ros_emit_same:
  "key \<noteq> ''connection'' \<Longrightarrow> onceListeners (ros_emit key m s) key = []"
  by (simp add: ros_emit_def fire_all_keeps)

lemma invoked_fire_response:
  "invoked (fire (ResponseListener (Function cb) failedCallback) m s) =
     invoked s @
       (if result m = Some False
        then (case failedCallback of Function f \<Rightarrow> [(f, Values (values' m))] | _ \<Rightarrow> [])
        else [(cb, ServiceResponse (values' m))])"
  by (cases failedCallback; cases "result m"; simp)

lemma queued_calls_append:
  "queued_calls (ls @ ls') = queued_calls ls @ queued_calls ls'"
  by (induction ls rule: queued_calls.induct) simp_all

lemma fire_quiet:
  assumes "\<not> calls_back l"
  shows "onceListeners (fire l ev s) = onceListeners s"
    and "isConnected (fire l ev s) = isConnected s"
    and "transportLibrary (fire l ev s) = transportLibrary s"
    and "callLog (fire l ev s) = callLog s"
    and "socketCalls (fire l ev s) = socketCalls s @ queued_calls [l]"
  using assms by (cases l; simp add: run_emitter_def split: js_arg.splits)+

lemma fire_all_quiet:
  assumes "list_all (\<lambda>l. \<not> calls_back l) ls"
  shows "onceListeners (fire_all ls ev s) = onceListeners s
       \<and> isConnected (fire_all ls ev s) = isConnected s
       \<and> transportLibrary (fire_all ls ev s) = transportLibrary s
       \<and> callLog (fire_all ls ev s) = callLog s
       \<and> socketCalls (fire_all ls ev s) = socketCalls s @ queued_calls ls"
  using assms unfolding fire_all_def
proof (induction ls arbitrary: s)
  case Nil
  then show ?case by simp
next
  case (Cons l ls)
  then have q: "\<not> calls_back l" and rest: "list_all (\<lambda>l. \<not> calls_back l) ls" by simp_all
  have "queued_calls (l # ls) = queued_calls [l] @ queued_calls ls"
    using queued_calls_append [of "[l]" ls] by simp
  with Cons.IH [OF rest, of "fire l ev s"] fire_quiet [OF q, of ev s]
  show ?case by simp
qed

lemma onopen_quiet:
  assumes "quiet s"
  shows "onceListeners (onopen ev s) ''connection'' = []"
    and "isConnected (onopen ev s)"
    and "transportLibrary (onopen ev s) = transportLibrary s"
    and "callLog (onopen ev s) = callLog s"
    and "socketCalls (onopen ev s) = socketCalls s @ queued_calls (onceListeners s ''connection'')"
  using fire_all_quiet [OF conjunct1 [OF assms [unfolded quiet_def]], of ev
      "s\<lparr>isConnected := True, onceListeners := (onceListeners s)(''connection'' := [])\<rparr>"]
  by (simp_all add: onopen_def ros_emit_def)

lemma do_step_quiet:
  assumes "quiet s"
  shows "quiet (do_step stringify x s)"
    and "transportLibrary (do_step stringify x s) = transportLibrary s"
    and "callLog (do_step stringify x s) = callLog s @ map stringify (called_messages [x])"
    and "wire_and_queue (do_step stringify x s) =
           wire_and_queue s @
           map (\<lambda>m. emitter_call (emitter_for s) (stringify m)) (called_messages [x])"
proof -
  show "quiet (do_step stringify x s)"
  proof (cases x)
    case (Call m)
    then show ?thesis
      using assms callOnConnection_queues [of s stringify m] callOnConnection_sends [of s stringify m]
      by (cases "isConnected s") (simp_all add: quiet_def queued_calls_append)
  next
    case (Open ev)
    then show ?thesis using onopen_quiet(1) [OF assms, of ev] by (simp add: quiet_def)
  qed
  show "transportLibrary (do_step stringify x s) = transportLibrary s"
    using onopen_quiet(3) [OF assms] by (cases x) simp_all
  show "callLog (do_step stringify x s) = callLog s @ map stringify (called_messages [x])"
    using onopen_quiet(4) [OF assms] by (cases x) simp_all
  show "wire_and_queue (do_step stringify x s) =
           wire_and_queue s @
           map (\<lambda>m. emitter_call (emitter_for s) (stringify m)) (called_messages [x])"
  proof (cases x)
    case (Call m)
    then show ?thesis
      using assms callOnConnection_queues [of s stringify m] callOnConnection_sends [of s stringify m]
      by (cases "isConnected s") (simp_all add: wire_and_queue_def queued_calls_append quiet_def)
  next
    case (Open ev)
    then show ?thesis using onopen_quiet [OF assms, of ev] by (simp add: wire_and_queue_def)
  qed
qed

lemma called_messages_append:
  "called_messages (xs @ ys) = called_messages xs @ called_messages ys"
  by (induction xs rule: called_messages.induct) simp_all

lemma run_steps_quiet:
  assumes "quiet s"
  shows "quiet (run_steps stringify steps s)
       \<and> transportLibrary (run_steps stringify steps s) = transportLibrary s
       \<and> callLog (run_steps stringify steps s) =
           callLog s @ map stringify (called_messages steps)
       \<and> wire_and_queue (run_steps stringify steps s) =
           wire_and_queue s @
           map (\<lambda>m. emitter_call (emitter_for s) (stringify m)) (called_messages steps)"
  using assms unfolding run_steps_def
proof (induction steps arbitrary: s)
  case Nil
  then show ?case by simp
next
  case (Cons x xs)
  note st = do_step_quiet [OF Cons.prems, of stringify x]
  have e: "emitter_for (do_step stringify x s) = emitter_for s"
    using st(2) by (rule emitter_for_transport)
  have c: "called_messages (x # xs) = called_messages [x] @ called_messages xs"
    using called_messages_append [of "[x]" xs] by simp
  from Cons.IH [OF st(1)] show ?case
    by (simp only: foldl_Cons st(2,3,4) e c map_append append_assoc)
qed

lemma run_steps_snoc:
  "run_steps stringify (steps @ [x]) s = do_step stringify x (run_steps stringify steps s)"
  by (simp add: run_steps_def)

text \<open>
  Claim C3, amended. The application calls \<^verbatim>\<open>callOnConnection\<close> and the transport opens,
  in any order, on a connection where no listener of \<^verbatim>\<open>'connection'\<close> calls
  \<^verbatim>\<open>callOnConnection\<close> itself and nothing is queued while connected. Then what the socket
  has been given, followed by what is still queued, is always the messages passed, once
  each and in call order. An open signal leaves nothing queued, so it has sent every
  message passed before it. A message passed while not connected does not reach the
  socket at that call; one passed while connected reaches it at once.
\<close>

theorem callOnConnection_fifo:
  assumes "list_all (\<lambda>l. \<not> calls_back l) (onceListeners s ''connection'')"
    and "isConnected s \<longrightarrow> queued_calls (onceListeners s ''connection'') = []"
  shows "callLog (run_steps stringify steps s) = callLog s @ map stringify (called_messages steps)
       \<and> socketCalls (run_steps stringify steps s) @
           queued_calls (onceListeners (run_steps stringify steps s) ''connection'') =
         socketCalls s @ queued_calls (onceListeners s ''connection'') @
           map (\<lambda>m. emitter_call (emitter_for s) (stringify m)) (called_messages steps)
       \<and> queued_calls (onceListeners (run_steps stringify (steps @ [Open ev]) s) ''connection'') = []
       \<and> (\<not> isConnected (run_steps stringify steps s) \<longrightarrow>
            socketCalls (run_steps stringify (steps @ [Call m]) s) =
            socketCalls (run_steps stringify steps s))
       \<and> (isConnected (run_steps stringify steps s) \<longrightarrow>
            socketCalls (run_steps stringify (steps @ [Call m]) s) =
            socketCalls (run_steps stringify steps s) @
              [emitter_call (emitter_for s) (stringify m)])"
proof -
  let ?r = "run_steps stringify steps s"
  have q: "quiet s" using assms by (simp add: quiet_def)
  note r = run_steps_quiet [OF q, of stringify steps]
  have e: "emitter_for ?r = emitter_for s"
    using r by (intro emitter_for_transport) simp
  have 1: "callLog ?r = callLog s @ map stringify (called_messages steps)"
    using r by simp
  have 2: "socketCalls ?r @ queued_calls (onceListeners ?r ''connection'') =
         socketCalls s @ queued_calls (onceListeners s ''connection'') @
           map (\<lambda>m. emitter_call (emitter_for s) (stringify m)) (called_messages steps)"
    using r by (simp add: wire_and_queue_def)
  have qr: "quiet ?r" using r by simp
  have 3: "queued_calls (onceListeners (run_steps stringify (steps @ [Open ev]) s) ''connection'') = []"
    using onopen_quiet(1) [OF qr, of ev] by (simp add: run_steps_snoc)
  have 4: "\<not> isConnected ?r \<longrightarrow>
      socketCalls (run_steps stringify (steps @ [Call m]) s) = socketCalls ?r"
    using callOnConnection_queues [of ?r stringify m] by (simp add: run_steps_snoc)
  have 5: "isConnected ?r \<longrightarrow>
      socketCalls (run_steps stringify (steps @ [Call m]) s) =
      socketCalls ?r @ [emitter_call (emitter_for s) (stringify m)]"
    using callOnConnection_sends [of ?r stringify m] e by (simp add: run_steps_snoc)
  from 1 2 3 4 5 show ?thesis by blast
qed

theorem callOnConnection_fifo_witness:
  "list_all (\<lambda>l. \<not> calls_back l) (onceListeners (Ros_new :: (nat, nat) ros) ''connection'')
   \<and> socketCalls (run_steps id [Call ''a'', Call ''b''] (Ros_new :: (nat, nat) ros)) = []
   \<and> socketCalls (run_steps id [Call ''a'', Call ''b'', Open \<lparr>result = None, values' = 0\<rparr>]
         (Ros_new :: (nat, nat) ros))
       = [SocketSend ''a'', SocketSend ''b'']
   \<and> socketCalls (run_steps id
         [Call ''a'', Call ''b'', Open \<lparr>result = None, values' = 0\<rparr>, Call ''c'',
          Open \<lparr>result = None, values' = 0\<rparr>]
         (Ros_new :: (nat, nat) ros))
       = [SocketSend ''a'', SocketSend ''b'', SocketSend ''c'']
   \<and> callLog (run_steps id
         [Call ''a'', Call ''b'', Open \<lparr>result = None, values' = 0\<rparr>, Call ''c'',
          Open \<lparr>result = None, values' = 0\<rparr>]
         (Ros_new :: (nat, nat) ros))
       = [''a'', ''b'', ''c'']"
proof -
  have h: "list_all (\<lambda>l. \<not> calls_back l) (onceListeners (Ros_new :: (nat, nat) ros) ''connection'')"
    by (simp add: Ros_new_def)
  have h2: "isConnected (Ros_new :: (nat, nat) ros) \<longrightarrow>
      queued_calls (onceListeners (Ros_new :: (nat, nat) ros) ''connection'') = []"
    by (simp add: Ros_new_def)
  from callOnConnection_fifo [OF h h2, of id
      "[Call ''a'', Call ''b'', Open \<lparr>result = None, values' = 0\<rparr>, Call ''c'']"
      "\<lparr>result = None, values' = 0\<rparr>" "''d''"]
    h
  show ?thesis
    by (simp add: Ros_new_def run_steps_def onopen_def ros_emit_def fire_all_def
        callOnConnection_def ros_once_def run_emitter_def emitter_for_def Let_def)
qed

text \<open>
  Claim C3 as stated fails when a listener of \<^verbatim>\<open>'connection'\<close> calls \<^verbatim>\<open>callOnConnection\<close>
  while the queue is flushed. The application registers such a listener, then passes
  \<open>a\<close> and \<open>b\<close> while not connected, and the transport opens. The listener runs first
  and the connection already counts as connected, so its message \<open>x\<close> is sent at once:
  the calls were made in the order \<open>a\<close>, \<open>b\<close>, \<open>x\<close>, the socket sees \<open>x\<close>, \<open>a\<close>, \<open>b\<close>.
\<close>

theorem callOnConnection_fifo_counterexample:
  "callLog (run_steps id [Call ''a'', Call ''b'', Open \<lparr>result = None, values' = 0\<rparr>]
       (ros_once ''connection'' (CallingListener ''x'') (Ros_new :: (nat, nat) ros)))
     = [''a'', ''b'', ''x'']
   \<and> socketCalls (run_steps id [Call ''a'', Call ''b'', Open \<lparr>result = None, values' = 0\<rparr>]
       (ros_once ''connection'' (CallingListener ''x'') (Ros_new :: (nat, nat) ros)))
     = [SocketSend ''x'', SocketSend ''a'', SocketSend ''b'']"
  by (simp add: Ros_new_def run_steps_def onopen_def ros_emit_def fire_all_def
      callOnConnection_def ros_once_def run_emitter_def emitter_for_def Let_def)

text \<open>
  Claim C8. On an advertised service \<^verbatim>\<open>callService\<close> returns at once: the connection,
  present or not, is left as it was (no operation sent, no listener registered, the
  counter unchanged) and nothing is thrown.
\<close>

theorem callService_noop_when_advertised:
  assumes "isAdvertised svc"
  shows "callService svc request callback failedCallback stringify r = Returned r"
  using assms by (simp add: callService_def)

theorem callService_noop_when_advertised_witness:
  "isAdvertised \<lparr>name = ''/add_two_ints'', serviceType = ''rospy_tutorials/AddTwoInts'',
                  isAdvertised = True\<rparr>
   \<and> callService \<lparr>name = ''/add_two_ints'', serviceType = ''rospy_tutorials/AddTwoInts'',
                     isAdvertised = True\<rparr>
        (3::nat) (Function (0::nat)) Falsy (\<lambda>c. ''{}'') (Some (Ros_new :: (nat, nat) ros))
       = Returned (Some Ros_new)"
  using callService_noop_when_advertised
    [of "\<lparr>name = ''/add_two_ints'', serviceType = ''rospy_tutorials/AddTwoInts'',
          isAdvertised = True\<rparr>"
        "3::nat" "Function (0::nat)" Falsy "\<lambda>c. ''{}''" "Some (Ros_new :: (nat, nat) ros)"]
  by simp

text \<open>
  Claim C4. A service that is not advertised is called with a success callback \<open>cb\<close>
  and any failure argument, on a connection with no listener yet under the call's fresh
  id. The call returns with one response listener under that id. Responses under other
  keys leave it registered. The first response under the id invokes, when its result
  flag is false, the failure callback alone (nothing if it is not a function), and
  otherwise the success callback alone, with the wrapped values; the listener is then
  gone, and a second response under the id invokes nothing.
\<close>

theorem callService_response_once:
  assumes "\<not> isAdvertised svc"
    and "callId = serviceCallId svc (idCounter s + 1)"
    and "onceListeners s callId = []"
  shows "case callService svc request (Function cb) failedCallback stringify (Some s) of
           Returned (Some s1) \<Rightarrow>
             idCounter s1 = idCounter s + 1
           \<and> onceListeners s1 callId = [ResponseListener (Function cb) failedCallback]
           \<and> invoked s1 = invoked s
           \<and> (key \<noteq> callId \<longrightarrow>
                onceListeners (ros_emit key m0 s1) callId = onceListeners s1 callId)
           \<and> invoked (ros_emit callId m s1) =
               invoked s @
                 (if result m = Some False
                  then (case failedCallback of Function f \<Rightarrow> [(f, Values (values' m))] | _ \<Rightarrow> [])
                  else [(cb, ServiceResponse (values' m))])
           \<and> onceListeners (ros_emit callId m s1) callId = []
           \<and> invoked (ros_emit callId m' (ros_emit callId m s1)) = invoked (ros_emit callId m s1)
         | _ \<Rightarrow> False"
proof -
  define s1 where "s1 = callOnConnection stringify
      \<lparr>call_op = ''call_service'', call_id = callId, call_service = name svc,
       call_type = serviceType svc, call_args = request\<rparr>
      (ros_once callId (ResponseListener (Function cb) failedCallback)
         (s\<lparr>idCounter := idCounter s + 1\<rparr>))"
  have ret: "callService svc request (Function cb) failedCallback stringify (Some s) =
      Returned (Some s1)"
    using assms(1,2) by (simp add: callService_def s1_def Let_def)
  have ne: "callId \<noteq> ''connection''" by (simp add: assms(2))
  have l: "onceListeners s1 callId = [ResponseListener (Function cb) failedCallback]"
    using ne assms(3) by (simp add: s1_def ros_once_def)
  have i: "invoked s1 = invoked s" by (simp add: s1_def ros_once_def)
  have c: "idCounter s1 = idCounter s + 1" by (simp add: s1_def ros_once_def)
  have o: "key \<noteq> callId \<longrightarrow> onceListeners (ros_emit key m0 s1) callId = onceListeners s1 callId"
    using ne by (simp add: ros_emit_other)
  have f: "invoked (ros_emit callId m s1) =
      invoked s @
        (if result m = Some False
         then (case failedCallback of Function f \<Rightarrow> [(f, Values (values' m))] | _ \<Rightarrow> [])
         else [(cb, ServiceResponse (values' m))])"
    by (simp only: ros_emit_single [OF l] invoked_fire_response) (simp add: i)
  have gone: "onceListeners (ros_emit callId m s1) callId = []"
    using ne by (rule ros_emit_same)
  have again: "invoked (ros_emit callId m' (ros_emit callId m s1)) = invoked (ros_emit callId m s1)"
    using gone by (rule ros_emit_none)
  show ?thesis
    unfolding ret using c l i o f gone again by simp
qed

theorem callService_response_once_witness:
  "(case callService \<lparr>name = ''/add_two_ints'', serviceType = ''rospy_tutorials/AddTwoInts'',
                         isAdvertised = False\<rparr>
            (3::nat) (Function (0::nat)) (Function 1) (\<lambda>c. ''{}'') (Some (Ros_new :: (nat, nat) ros)) of
      Returned (Some s1) \<Rightarrow>
        idCounter s1 = 1
        \<and> invoked (ros_emit ''call_service:/add_two_ints:1'' \<lparr>result = Some False, values' = 7\<rparr> s1)
            = [(1, Values 7)]
        \<and> invoked (ros_emit ''call_service:/add_two_ints:1'' \<lparr>result = Some True, values' = 8\<rparr> s1)
            = [(0, ServiceResponse 8)]
        \<and> invoked (ros_emit ''call_service:/add_two_ints:1'' \<lparr>result = Some True, values' = 8\<rparr>
              (ros_emit ''call_service:/add_two_ints:1'' \<lparr>result = Some False, values' = 7\<rparr> s1))
            = [(1, Values 7)]
    | _ \<Rightarrow> False)"
proof -
  let ?svc = "\<lparr>name = ''/add_two_ints'', serviceType = ''rospy_tutorials/AddTwoInts'',
               isAdvertised = False\<rparr>"
  have id: "''call_service:/add_two_ints:1'' = serviceCallId ?svc (idCounter (Ros_new :: (nat, nat) ros) + 1)"
    by (simp add: serviceCallId_def Ros_new_def Number_toString.simps)
  have a: "\<not> isAdvertised ?svc" by simp
  have l: "onceListeners (Ros_new :: (nat, nat) ros) ''call_service:/add_two_ints:1'' = []"
    by (simp add: Ros_new_def)
  from callService_response_once [OF a id l, where request = "3::nat" and cb = 0
      and failedCallback = "Function 1" and stringify = "\<lambda>c. ''{}''"
      and m = "\<lparr>result = Some False, values' = 7\<rparr>"
      and m' = "\<lparr>result = Some True, values' = 8\<rparr>"]
    callService_response_once [OF a id l, where request = "3::nat" and cb = 0
      and failedCallback = "Function 1" and stringify = "\<lambda>c. ''{}''"
      and m = "\<lparr>result = Some True, values' = 8\<rparr>"
      and m' = "\<lparr>result = Some True, values' = 8\<rparr>"]
  show ?thesis
    by (auto simp: Ros_new_def split: outcome.splits option.splits)
qed

section \<open>Properties of the transform client\<close>

lemma set_Object_keys [simp]: "set (Object_keys ps) = fst ` set ps"
  by (auto simp: Object_keys_def Let_def)


lemma map_of_update_info:
  "map_of (update_info k f infos) k' =
     (if k' = k then map_option f (map_of infos k) else map_of infos k')"
  by (induction infos) (auto simp: update_info_def)

lemma keys_update_info [simp]: "map fst (update_info k f infos) = map fst infos"
  by (induction infos) (auto simp: update_info_def)


lemma update_info_append [simp]:
  "update_info k f (xs @ ys) = update_info k f xs @ update_info k f ys"
  by (simp add: update_info_def)

lemma update_info_single [simp]: "update_info k f [(k, i)] = [(k, f i)]"
  by (simp add: update_info_def)


lemma inherits_prototypeTransform:
  "prototypeTransform s' = prototypeTransform s \<Longrightarrow> inherits s' k = inherits s k"
  by (simp add: inherits_def)


lemma subscribe_cached:
  assumes "map_of (frameInfos s) (strip_leading_slash frameID) = Some info"
    and "transform info = Some t"
  shows "subscribe frameID (Function f) s =
     Returned (s\<lparr>called := called s @ [(f, t)],
                 frameInfos := update_info (strip_leading_slash frameID)
                    (\<lambda>i. i\<lparr>cbs := cbs i @ [Function f]\<rparr>) (frameInfos s)\<rparr>)"
  using assms
  by (simp add: subscribe_def push_cb_def Let_def frameInfos_get_def or_inherited_def)



lemma updateGoal_fields [simp]:
  "frameInfos (updateGoal s) = frameInfos s"
  "timeouts (updateGoal s) = timeouts s"
  "republisherUpdateRequested (updateGoal s) = False"
  "updateDelay (updateGoal s) = updateDelay s"
  "called (updateGoal s) = called s"
  "prototypeTransform (updateGoal s) = prototypeTransform s"
  by (simp_all add: updateGoal_def upstream_do_def Let_def split: option.splits)



text \<open>
  On a frame id that names an inherited property and no entry, \<^verbatim>\<open>subscribe\<close> throws; it
  creates no entry, schedules no timeout and sends nothing upstream.
\<close>

lemma subscribe_inherited_throws:
  assumes "map_of (frameInfos s) (strip_leading_slash frameID) = None"
    and "inherits s (strip_leading_slash frameID)"
  shows "\<not> returned (subscribe frameID callback s)
       \<and> frameInfos (state_of (subscribe frameID callback s)) = frameInfos s
       \<and> timeouts (state_of (subscribe frameID callback s)) = timeouts s
       \<and> upstream (state_of (subscribe frameID callback s)) = upstream s"
proof -
  let ?k = "strip_leading_slash frameID"
  have "frameInfos_get s ?k = ThePrototype \<or> frameInfos_get s ?k = InheritedFunction ?k
      \<or> frameInfos_get s ?k = InheritedTransform"
    using assms by (auto simp: frameInfos_get_def inherits_def)
  then show ?thesis
    by (auto simp: subscribe_def Let_def split: option.splits js_arg.splits)
qed






text \<open>
  Claim C10. Subscribing a function to a frame whose entry holds a transform returns,
  calls the function once with that transform, appends it to the entry's callbacks,
  leaves the other entries alone, and schedules nothing: the pending timeouts, the
  request flag and the upstream trace are unchanged.
\<close>

theorem subscribe_cached_transform:
  assumes "map_of (frameInfos s) (strip_leading_slash frameID) = Some info"
    and "transform info = Some t"
  shows "returned (subscribe frameID (Function f) s)
       \<and> called (state_of (subscribe frameID (Function f) s)) = called s @ [(f, t)]
       \<and> map_of (frameInfos (state_of (subscribe frameID (Function f) s)))
             (strip_leading_slash frameID) = Some (info\<lparr>cbs := cbs info @ [Function f]\<rparr>)
       \<and> (k \<noteq> strip_leading_slash frameID \<longrightarrow>
            map_of (frameInfos (state_of (subscribe frameID (Function f) s))) k =
            map_of (frameInfos s) k)
       \<and> timeouts (state_of (subscribe frameID (Function f) s)) = timeouts s
       \<and> republisherUpdateRequested (state_of (subscribe frameID (Function f) s)) =
           republisherUpdateRequested s
       \<and> upstream (state_of (subscribe frameID (Function f) s)) = upstream s"
  by (simp add: subscribe_cached [OF assms] map_of_update_info assms(1))

theorem subscribe_cached_transform_witness:
  "map_of (frameInfos (state_of (processTFArray [\<lparr>child_frame_id = ''/a'', transform_of = 7\<rparr>]
      (state_of (subscribe ''/a'' (Function 0)
        (TFClient_new True ''/base_link'' 2 1 10 50 \<lparr>secs = 2, nsecs = 0\<rparr>
           :: (nat, nat, nat) tfclient)))))) ''a''
     = Some \<lparr>transform = Some 7, cbs = [Function 0]\<rparr>
   \<and> returned (subscribe ''a'' (Function 1)
      (state_of (processTFArray [\<lparr>child_frame_id = ''/a'', transform_of = 7\<rparr>]
        (state_of (subscribe ''/a'' (Function 0)
          (TFClient_new True ''/base_link'' 2 1 10 50 \<lparr>secs = 2, nsecs = 0\<rparr>
             :: (nat, nat, nat) tfclient))))))
   \<and> called (state_of (subscribe ''a'' (Function 1)
      (state_of (processTFArray [\<lparr>child_frame_id = ''/a'', transform_of = 7\<rparr>]
        (state_of (subscribe ''/a'' (Function 0)
          (TFClient_new True ''/base_link'' 2 1 10 50 \<lparr>secs = 2, nsecs = 0\<rparr>
             :: (nat, nat, nat) tfclient)))))))
     = [(0, 7), (1, 7)]
   \<and> map_of (frameInfos (state_of (subscribe ''a'' (Function 1)
      (state_of (processTFArray [\<lparr>child_frame_id = ''/a'', transform_of = 7\<rparr>]
        (state_of (subscribe ''/a'' (Function 0)
          (TFClient_new True ''/base_link'' 2 1 10 50 \<lparr>secs = 2, nsecs = 0\<rparr>
             :: (nat, nat, nat) tfclient)))))))) ''a''
     = Some \<lparr>transform = Some 7, cbs = [Function 0, Function 1]\<rparr>
   \<and> timeouts (state_of (subscribe ''a'' (Function 1)
      (state_of (processTFArray [\<lparr>child_frame_id = ''/a'', transform_of = 7\<rparr>]
        (state_of (subscribe ''/a'' (Function 0)
          (TFClient_new True ''/base_link'' 2 1 10 50 \<lparr>secs = 2, nsecs = 0\<rparr>
             :: (nat, nat, nat) tfclient)))))))
     = [50]"
proof -
  let ?s = "state_of (processTFArray [\<lparr>child_frame_id = ''/a'', transform_of = 7\<rparr>]
      (state_of (subscribe ''/a'' (Function 0)
        (TFClient_new True ''/base_link'' 2 1 10 50 \<lparr>secs = 2, nsecs = 0\<rparr>
           :: (nat, nat, nat) tfclient))))"
  have s: "?s = (TFClient_new True ''/base_link'' 2 1 10 50 \<lparr>secs = 2, nsecs = 0\<rparr>)
      \<lparr>frameInfos := [(''a'', \<lparr>transform = Some 7, cbs = [Function 0]\<rparr>)],
        republisherUpdateRequested := True, timeouts := [50], called := [(0, 7)]\<rparr>"
    by (simp add: TFClient_new_def strip_leading_slash_def subscribe_def push_cb_def
        update_info_def frameInfos_get_def Object_prototype_functions_def Let_def)
  have e: "map_of (frameInfos ?s) (strip_leading_slash ''a'') =
      Some \<lparr>transform = Some 7, cbs = [Function 0]\<rparr>"
    by (simp only: s) (simp add: strip_leading_slash_def)
  from subscribe_cached_transform [OF e, of 7 1 "''b''"] show ?thesis
    by (simp only: s) (simp add: strip_leading_slash_def TFClient_new_def)
qed

text \<open>
  A transform for the frame \<^verbatim>\<open>__proto__\<close> is written to \<^verbatim>\<open>Object.prototype\<close> before the call
  throws. From then on an entry with no transform of its own inherits that one, and a
  subscription to it calls back at once.
\<close>

lemma prototype_write_example:
  "processTFArray [\<lparr>child_frame_id = ''__proto__'', transform_of = 7\<rparr>]
     (state_of (subscribe ''a'' (Function 0)
        (TFClient_new True ''/base_link'' 2 1 10 50 \<lparr>secs = 2, nsecs = 0\<rparr>
           :: (nat, nat, nat) tfclient)))
   = Threw TypeError
      ((TFClient_new True ''/base_link'' 2 1 10 50 \<lparr>secs = 2, nsecs = 0\<rparr>)
         \<lparr>frameInfos := [(''a'', \<lparr>transform = None, cbs = [Function 0]\<rparr>)],
           republisherUpdateRequested := True, timeouts := [50],
           prototypeTransform := Some 7\<rparr>)
   \<and> called (state_of (subscribe ''a'' (Function 1)
        ((TFClient_new True ''/base_link'' 2 1 10 50 \<lparr>secs = 2, nsecs = 0\<rparr>
            :: (nat, nat, nat) tfclient)
         \<lparr>frameInfos := [(''a'', \<lparr>transform = None, cbs = [Function 0]\<rparr>)],
           republisherUpdateRequested := True, timeouts := [50],
           prototypeTransform := Some 7\<rparr>))) = [(1, 7)]"
  by (simp add: TFClient_new_def strip_leading_slash_def subscribe_def push_cb_def
      update_info_def frameInfos_get_def Object_prototype_functions_def or_inherited_def Let_def)

lemma unsubscribe_with_callback_throws:
  "truthy callback \<Longrightarrow> \<not> returned (unsubscribe frameID callback s)"
  by (simp add: unsubscribe_def Let_def)

lemma unsubscribe_all_deletes:
  "\<not> truthy callback \<Longrightarrow>
   returned (unsubscribe frameID callback s) \<and>
   map_of (frameInfos (state_of (unsubscribe frameID callback s))) (strip_leading_slash frameID) = None"
  by (simp add: unsubscribe_def Let_def delete_info_def map_of_eq_None_iff image_iff)

text \<open>
  Claim C5. A fresh client subscribes one callback to a frame and unsubscribes it again.
  The loop removes the callback, then the condition after the loop reads the loop's
  own \<^verbatim>\<open>cbs\<close> out of its scope: the call throws a ReferenceError and the entry stays,
  with no callback left. No re-aggregation is triggered by it.
\<close>

theorem unsubscribe_last_callback_throws:
  "unsubscribe ''/f'' (Function 0)
     (state_of (subscribe ''/f'' (Function (0::nat))
        (TFClient_new True ''/base_link'' 2 1 10 50 \<lparr>secs = 2, nsecs = 0\<rparr>
           :: (nat, nat, nat) tfclient)))
   = Threw ReferenceError
       ((TFClient_new True ''/base_link'' 2 1 10 50 \<lparr>secs = 2, nsecs = 0\<rparr>)
          \<lparr>frameInfos := [(''f'', \<lparr>transform = None, cbs = []\<rparr>)],
            republisherUpdateRequested := True, timeouts := [50]\<rparr>)"
  by (simp add: TFClient_new_def strip_leading_slash_def subscribe_def unsubscribe_def
      push_cb_def update_info_def frameInfos_get_def Object_prototype_functions_def Let_def)

end
